theory Spec2Isabelle
  imports Complex_Main "HOL-Library.Product_Lexorder" "HOL-Library.Multiset"
begin

section \<open>JavaScript values used by the venue application\<close>

text \<open>
  A JavaScript number that the code computes with: a finite value, one of the two
  infinities, or NaN. The finite values are exact (\<open>int\<close> where the code handles whole
  numbers, \<open>rat\<close> for the quotient fed to \<open>Math.round\<close>); the rounding of IEEE doubles
  beyond 2^53 is not represented.
\<close>

datatype 'a jsnum = Num 'a | PosInf | NegInf | NaN

text \<open>
  A string-valued property that may be \<open>undefined\<close> or \<open>null\<close>. The strict comparison
  \<open>!==\<close> of the source is inequality on this type.
\<close>

datatype jsstr = Undefined | Null | Str string

text \<open>Truthiness of such a property: a non-empty string.\<close>

fun truthy_str :: "jsstr \<Rightarrow> bool" where
  "truthy_str (Str s) = (s \<noteq> [])"
| "truthy_str _ = False"

text \<open>Truthiness of a \<open>string | null\<close> value.\<close>

fun truthy :: "string option \<Rightarrow> bool" where
  "truthy (Some s) = (s \<noteq> [])"
| "truthy None = False"

subsection \<open>Number to string\<close>

text \<open>
  The template literal \<open>`${n}`\<close> of a whole number: its decimal digits, with a minus sign
  for a negative value.
\<close>

definition digit_char :: "nat \<Rightarrow> char" where
  "digit_char d = ''0123456789'' ! d"

fun show_nat :: "nat \<Rightarrow> string" where
  "show_nat n = (if n < 10 then [digit_char n] else show_nat (n div 10) @ [digit_char (n mod 10)])"

declare show_nat.simps [simp del]

definition show_int :: "int \<Rightarrow> string" where
  "show_int i = (if i < 0 then CHR ''-'' # show_nat (nat (- i)) else show_nat (nat i))"

subsection \<open>Arithmetic of the card\<close>

text \<open>\<open>Math.floor(a / b)\<close> on whole numbers, through the exact quotient.\<close>

definition Math_floor_div :: "int \<Rightarrow> int \<Rightarrow> int" where
  "Math_floor_div a b = \<lfloor>rat_of_int a / rat_of_int b\<rfloor>"

text \<open>The remainder operator \<open>%\<close>: the result takes the sign of the dividend.\<close>

definition js_rem :: "int \<Rightarrow> int \<Rightarrow> int" where
  "js_rem a b = sgn a * (\<bar>a\<bar> mod \<bar>b\<bar>)"

section \<open>The venue card: formatDriveTime\<close>

text \<open>
  \<^verbatim>\<open>
  const formatDriveTime = (minutes: number | null) => {
    if (!minutes) return null;
    if (minutes < 60) return `${minutes} mins`;
    const hours = Math.floor(minutes / 60);
    const mins = minutes % 60;
    return `${hours} hr ${mins} mins`;
  };
  \<close>
  The argument is the \<open>drive_time_minutes\<close> column of a fetched row, a nullable integer.
\<close>

definition formatDriveTime :: "int option \<Rightarrow> string option" where
  "formatDriveTime minutes =
     (case minutes of
        None \<Rightarrow> None
      | Some m \<Rightarrow>
          if m = 0 then None
          else if m < 60 then Some (show_int m @ '' mins'')
          else
            let hours = Math_floor_div m 60;
                mins = js_rem m 60
            in Some (show_int hours @ '' hr '' @ show_int mins @ '' mins''))"

section \<open>The venue rows and drafts\<close>

text \<open>
  Modelled from the spec: the row type \<open>Tables<"venues">\<close> is declared in
  \<open>@/lib/database.types\<close>, which is not among the sources. The spec's data model gives
  its attributes: an identifier "present once persisted, absent on a new draft", free-text
  strings, a nullable whole number of minutes, a visibility flag and an ordered sequence
  of image URLs. An identifier issued by the store is a truthy JavaScript value (a
  non-zero number or a non-empty string), so the source's tests \<open>formData.id\<close> and
  \<open>!formData.id\<close> are tests of presence.
\<close>

datatype ident = Ident nat

text \<open>
  One record serves the fetched row (\<open>Tables<"venues">\<close>, minutes in \<open>int\<close>) and the
  form's draft (\<open>Partial<Tables<"venues">>\<close>, minutes any JavaScript number, since the
  form stores what \<open>calculateDriveTime\<close> returns). \<open>None\<close> is null or undefined.
\<close>

record 'n venue =
  venue_id :: "ident option"
  name :: "string option"
  location :: jsstr
  website_url :: "string option"
  brochure_url :: "string option"
  price_saturday :: "string option"
  price_sunday :: "string option"
  price_midweek :: "string option"
  status :: "string option"
  status_color :: "string option"
  venue_notes :: "string option"
  drive_time_minutes :: "'n option"
  active :: "bool option"
  images :: "string list option"

type_synonym row = "int venue"
type_synonym draft = "int jsnum venue"

section \<open>The venue list: sorting\<close>

subsection \<open>Strings and numbers of the price heuristic\<close>

definition is_digit :: "char \<Rightarrow> bool" where
  "is_digit c = (c \<in> set ''0123456789'')"

definition digit_val :: "char \<Rightarrow> nat" where
  "digit_val c = of_char c - 48"

text \<open>The decimal value of a run of digits.\<close>

definition dec_value :: "string \<Rightarrow> nat" where
  "dec_value ds = foldl (\<lambda>a c. 10 * a + digit_val c) 0 ds"

text \<open>\<open>p.replace(/,/g, "")\<close>: every comma removed.\<close>

definition strip_commas :: "string \<Rightarrow> string" where
  "strip_commas p = filter (\<lambda>c. c \<noteq> CHR '','') p"

text \<open>
  \<open>s.match(/(\d+)/)\<close>: the regular expression is tried at each position from the left;
  at the first position holding a digit it matches, greedily, the digits that follow.
  \<open>None\<close> is the null of a failed match, \<open>Some m\<close> the capture \<open>match[1]\<close>.
\<close>

fun match_digits :: "string \<Rightarrow> string option" where
  "match_digits [] = None"
| "match_digits (c # cs) = (if is_digit c then Some (takeWhile is_digit (c # cs)) else match_digits cs)"

text \<open>
  \<open>parseInt(s, 10)\<close>: leading white space is skipped, one sign is read, then the longest
  prefix of decimal digits; with no digit there the result is NaN.
  Code units are modelled as 8-bit characters.
\<close>

definition is_js_space :: "char \<Rightarrow> bool" where
  "is_js_space c = (c \<in> set [CHR 0x09, CHR 0x0A, CHR 0x0B, CHR 0x0C, CHR 0x0D, CHR 0x20, CHR 0xA0])"

definition parseInt :: "string \<Rightarrow> int jsnum" where
  "parseInt s =
     (let t = dropWhile is_js_space s;
          neg = (t \<noteq> [] \<and> hd t = CHR ''-'');
          u = (if t \<noteq> [] \<and> (hd t = CHR ''-'' \<or> hd t = CHR ''+'') then tl t else t);
          ds = takeWhile is_digit u
      in if ds = [] then NaN
         else Num (if neg then - int (dec_value ds) else int (dec_value ds)))"

text \<open>Subtraction of JavaScript numbers: \<open>Infinity - Infinity\<close> is NaN.\<close>

fun js_sub :: "int jsnum \<Rightarrow> int jsnum \<Rightarrow> int jsnum" where
  "js_sub NaN _ = NaN"
| "js_sub _ NaN = NaN"
| "js_sub (Num a) (Num b) = Num (a - b)"
| "js_sub (Num a) PosInf = NegInf"
| "js_sub (Num a) NegInf = PosInf"
| "js_sub PosInf PosInf = NaN"
| "js_sub PosInf _ = PosInf"
| "js_sub NegInf NegInf = NaN"
| "js_sub NegInf _ = NegInf"

subsection \<open>Array.prototype.sort\<close>

text \<open>
  The source sorts a copy of the fetched list with the built-in \<open>sort\<close> and a comparator.
  ECMAScript fixes what the comparator's result means (a NaN result counts as +0, a
  positive result puts the first argument after the second) and requires the sort to
  be stable; for a consistent comparator this determines the result, which is computed
  here by a stable insertion sort.
\<close>

fun js_gt0 :: "int jsnum \<Rightarrow> bool" where
  "js_gt0 (Num n) = (0 < n)"
| "js_gt0 PosInf = True"
| "js_gt0 NegInf = False"
| "js_gt0 NaN = False"

fun js_insort :: "('a \<Rightarrow> 'a \<Rightarrow> int jsnum) \<Rightarrow> 'a \<Rightarrow> 'a list \<Rightarrow> 'a list" where
  "js_insort cmp x [] = [x]"
| "js_insort cmp x (y # ys) = (if js_gt0 (cmp x y) then y # js_insort cmp x ys else x # y # ys)"

definition js_sort :: "('a \<Rightarrow> 'a \<Rightarrow> int jsnum) \<Rightarrow> 'a list \<Rightarrow> 'a list" where
  "js_sort cmp xs = foldr (js_insort cmp) xs []"

subsection \<open>sortedVenues\<close>

datatype SortOption = Alphabetic | Distance | Price_saturday

text \<open>
  \<^verbatim>\<open>
  const getPrice = (p: string | null) => {
    if (!p || p === "Unavailable") return Infinity;
    const match = p.replace(/,/g, "").match(/(\d+)/);
    return match ? parseInt(match[1], 10) : Infinity;
  };
  \<close>
\<close>

definition getPrice :: "string option \<Rightarrow> int jsnum" where
  "getPrice p =
     (case p of
        None \<Rightarrow> PosInf
      | Some s \<Rightarrow>
          if s = [] \<or> s = ''Unavailable'' then PosInf
          else (case match_digits (strip_commas s) of
                  None \<Rightarrow> PosInf
                | Some m \<Rightarrow> parseInt m))"

text \<open>\<open>a.name || ""\<close> and \<open>a.drive_time_minutes ?? Infinity\<close>.\<close>

definition or_empty :: "string option \<Rightarrow> string" where
  "or_empty s = (case s of None \<Rightarrow> [] | Some t \<Rightarrow> t)"

definition or_Infinity :: "int option \<Rightarrow> int jsnum" where
  "or_Infinity d = (case d of None \<Rightarrow> PosInf | Some n \<Rightarrow> Num n)"

text \<open>
  The comparator of \<open>sortedVenues\<close>. \<open>localeCompare\<close> belongs to the host's collation
  and is a parameter.
\<close>

definition venue_compare :: "(string \<Rightarrow> string \<Rightarrow> int) \<Rightarrow> SortOption \<Rightarrow> row \<Rightarrow> row \<Rightarrow> int jsnum" where
  "venue_compare localeCompare sortOption a b =
     (case sortOption of
        Alphabetic \<Rightarrow> Num (localeCompare (or_empty (name a)) (or_empty (name b)))
      | Distance \<Rightarrow>
          let distA = or_Infinity (drive_time_minutes a);
              distB = or_Infinity (drive_time_minutes b)
          in js_sub distA distB
      | Price_saturday \<Rightarrow> js_sub (getPrice (price_saturday a)) (getPrice (price_saturday b)))"

definition sortedVenues :: "(string \<Rightarrow> string \<Rightarrow> int) \<Rightarrow> SortOption \<Rightarrow> row list \<Rightarrow> row list" where
  "sortedVenues localeCompare sortOption venues = js_sort (venue_compare localeCompare sortOption) venues"

subsection \<open>The orders the sort is compared with\<close>

text \<open>
  Ascending order of nullable minutes with null as +infinity, and of extracted prices
  with \<open>PosInf\<close> last.
\<close>

fun dist_le :: "int option \<Rightarrow> int option \<Rightarrow> bool" where
  "dist_le _ None = True"
| "dist_le None (Some y) = False"
| "dist_le (Some x) (Some y) = (x \<le> y)"




text \<open>
  Keys in a linear order (pairs, compared lexicographically, \<open>False\<close> before \<open>True\<close>)
  that the two comparators agree with; they link the sort to the library's stable sort.
\<close>

definition dist_key :: "int option \<Rightarrow> bool \<times> int" where
  "dist_key d = (case d of None \<Rightarrow> (True, 0) | Some n \<Rightarrow> (False, n))"


text \<open>A collation that finds all names equal, and the price of the spec's example.\<close>

definition lc0 :: "string \<Rightarrow> string \<Rightarrow> int" where
  "lc0 a b = 0"


text \<open>A row that has only a name, minutes and a Saturday price, for examples.\<close>

definition mk_row :: "string \<Rightarrow> int option \<Rightarrow> string option \<Rightarrow> row" where
  "mk_row n d p =
     \<lparr>venue_id = None, name = Some n, location = Null, website_url = None,
      brochure_url = None, price_saturday = p, price_sunday = None, price_midweek = None,
      status = None, status_color = None, venue_notes = None, drive_time_minutes = d,
      active = Some True, images = None\<rparr>"

section \<open>Effects\<close>

text \<open>
  Every operation returns its new state together with the list of what it did to the
  outside world, in order: console output, alerts, requests to the store, to object
  storage and to the mapping APIs, and the \<open>onSave\<close> callback.
\<close>

datatype jsfile = File string

datatype event =
    ConsoleError string
  | Alert string
  | StoreSelect
  | StoreUpdate ident draft
  | StoreInsert draft
  | StorageUpload string jsfile
  | FetchPlaces string
  | FetchDirections string
  | OnSave

text \<open>
  What an awaited request can do: reject (throw), or deliver a response with its \<open>ok\<close>
  flag and the outcome of \<open>response.json()\<close> (\<open>None\<close> when that rejects).
\<close>

datatype 'a fetch_outcome = FetchThrew | Response bool "'a option"

section \<open>The venue list: fetchVenues\<close>

datatype View = ListView | CreateView | EditView

record app_state =
  venues :: "row list"
  loading :: bool
  view :: View
  editingVenue :: "row option"
  sortOption :: SortOption

text \<open>
  The store's answer to \<open>select("*")\<close>: the call rejects, or it resolves to
  \<open>{ data, error }\<close> with a nullable \<open>data\<close> and an \<open>error\<close> that is set or not.
\<close>

datatype select_outcome = SelectThrew | SelectResolved "row list option" bool

text \<open>
  \<^verbatim>\<open>
  setLoading(true);
  try {
    const { data, error } = await supabase.from("venues").select("*");
    if (error) throw error;
    setVenues(data || []);
  } catch (error) {
    console.error("Error fetching venues:", error);
  } finally {
    setLoading(false);
  }
  \<close>
\<close>

definition fetchVenues :: "select_outcome \<Rightarrow> app_state \<Rightarrow> app_state \<times> event list" where
  "fetchVenues answer st =
     (case answer of
        SelectThrew \<Rightarrow>
          (st\<lparr>loading := False\<rparr>, [StoreSelect, ConsoleError ''Error fetching venues:''])
      | SelectResolved data error \<Rightarrow>
          if error then
            (st\<lparr>loading := False\<rparr>, [StoreSelect, ConsoleError ''Error fetching venues:''])
          else
            (st\<lparr>venues := (case data of None \<Rightarrow> [] | Some rows \<Rightarrow> rows), loading := False\<rparr>,
             [StoreSelect]))"

text \<open>The fetch fails when the call rejects or resolves with an error.\<close>

fun fetch_failed :: "select_outcome \<Rightarrow> bool" where
  "fetch_failed SelectThrew = True"
| "fetch_failed (SelectResolved data error) = error"

text \<open>The state of \<open>App\<close> when it is mounted, and \<open>handleSave\<close>, which refetches.\<close>

definition initial_app :: app_state where
  "initial_app = \<lparr>venues = [], loading = True, view = ListView, editingVenue = None,
     sortOption = Alphabetic\<rparr>"

definition handleSave :: "select_outcome \<Rightarrow> app_state \<Rightarrow> app_state \<times> event list" where
  "handleSave answer st =
     (let (st1, es) = fetchVenues answer st
      in (st1\<lparr>view := ListView, editingVenue := None\<rparr>, es))"

section \<open>The venue form\<close>

record form_state =
  formData :: draft
  form_loading :: bool
  searching :: bool

text \<open>
  The shapes of the JSON bodies the form reads, as far as the code looks into them.
  \<open>DataNull\<close>, \<open>RouteNull\<close>, \<open>PDataNull\<close> and \<open>PlaceNull\<close> are a null where the code
  reads a property, which throws a TypeError; \<open>RoutesAbsent\<close> and \<open>PlacesAbsent\<close> are a
  missing or falsy property, or one whose \<open>length\<close> is not above 0.
\<close>

datatype dur_field =
    DurAbsent  \<comment> \<open>no \<open>duration\<close>, or a falsy one that is not a string\<close>
  | DurStr string
  | DurNonStr  \<comment> \<open>a truthy value that is not a string: it has no \<open>replace\<close> method\<close>

datatype route = RouteNull | Route dur_field

datatype routes_field = RoutesAbsent | Routes "route list"

datatype directions_data = DataNull | Data routes_field

datatype place = PlaceNull | Place jsstr

datatype places_field = PlacesAbsent | Places "place list"

datatype places_data = PDataNull | PData places_field

text \<open>
  Uploading one file to a bucket: the call rejects, resolves with an error, or succeeds,
  and then \<open>getPublicUrl\<close> gives the public URL of the randomly named object.
\<close>

datatype upload_outcome = UploadThrew | UploadError | Uploaded string

datatype write_outcome = WriteThrew | WriteError | WriteOk

text \<open>
  The world outside the form: the configured API key
  (\<open>import.meta.env.VITE_GOOGLE_MAPS_API_KEY\<close>) and the answers of the collaborators.
\<close>

record env =
  apiKey :: "string option"
  directions :: "string \<Rightarrow> directions_data fetch_outcome"
  places :: "string \<Rightarrow> places_data fetch_outcome"
  upload :: "string \<Rightarrow> jsfile \<Rightarrow> upload_outcome"
  store_write :: write_outcome

subsection \<open>The initial draft\<close>

text \<open>
  \<open>App\<close> passes \<open>initialData\<close> as undefined (create) or as a fetched row (edit). The
  defaults are overridden by the row's attributes; \<open>active\<close> and \<open>images\<close> get their
  defaults when the row has null there.
\<close>

definition init_formData :: "row option \<Rightarrow> draft" where
  "init_formData initialData =
     (case initialData of
        None \<Rightarrow>
          \<lparr>venue_id = None, name = Some [], location = Str [], website_url = Some [],
           brochure_url = Some [], price_saturday = Some [], price_sunday = Some [],
           price_midweek = Some [], status = Some ''Pending'', status_color = Some ''#64748b'',
           venue_notes = Some [], drive_time_minutes = None, active = Some True,
           images = Some []\<rparr>
      | Some r \<Rightarrow>
          \<lparr>venue_id = venue_id r, name = name r, location = location r,
           website_url = website_url r, brochure_url = brochure_url r,
           price_saturday = price_saturday r, price_sunday = price_sunday r,
           price_midweek = price_midweek r, status = status r, status_color = status_color r,
           venue_notes = venue_notes r, drive_time_minutes = map_option Num (drive_time_minutes r),
           active = Some (case active r of None \<Rightarrow> True | Some b \<Rightarrow> b),
           images = Some (case images r of None \<Rightarrow> [] | Some xs \<Rightarrow> xs)\<rparr>)"

text \<open>\<open>initialData?.location\<close>.\<close>

definition initial_location :: "row option \<Rightarrow> jsstr" where
  "initial_location initialData = (case initialData of None \<Rightarrow> Undefined | Some r \<Rightarrow> location r)"

subsection \<open>calculateDriveTime\<close>

text \<open>\<open>s.replace("s", "")\<close>: the first occurrence removed.\<close>

fun replace_first :: "char \<Rightarrow> string \<Rightarrow> string" where
  "replace_first c [] = []"
| "replace_first c (x # xs) = (if x = c then xs else x # replace_first c xs)"

text \<open>Division by a positive constant, and \<open>Math.round\<close>: nearest, a half goes up.\<close>

fun js_div :: "int jsnum \<Rightarrow> int \<Rightarrow> rat jsnum" where
  "js_div (Num n) d = Num (rat_of_int n / rat_of_int d)"
| "js_div PosInf d = PosInf"
| "js_div NegInf d = NegInf"
| "js_div NaN d = NaN"

fun Math_round :: "rat jsnum \<Rightarrow> int jsnum" where
  "Math_round (Num q) = Num \<lfloor>q + 1 / 2\<rfloor>"
| "Math_round PosInf = PosInf"
| "Math_round NegInf = NegInf"
| "Math_round NaN = NaN"

text \<open>
  The part of \<open>calculateDriveTime\<close> that reads the body:
  \<^verbatim>\<open>
  if (data.routes && data.routes.length > 0 && data.routes[0].duration) {
    const durationSeconds = parseInt(data.routes[0].duration.replace("s", ""), 10);
    return Math.round(durationSeconds / 60);
  }
  \<close>
  \<open>Inl ()\<close> is a thrown TypeError, \<open>Inr None\<close> falls through to \<open>return null\<close>.
\<close>

fun read_duration :: "directions_data \<Rightarrow> unit + int jsnum option" where
  "read_duration DataNull = Inl ()"
| "read_duration (Data RoutesAbsent) = Inr None"
| "read_duration (Data (Routes [])) = Inr None"
| "read_duration (Data (Routes (RouteNull # rs))) = Inl ()"
| "read_duration (Data (Routes (Route DurAbsent # rs))) = Inr None"
| "read_duration (Data (Routes (Route DurNonStr # rs))) = Inl ()"
| "read_duration (Data (Routes (Route (DurStr s) # rs))) =
     (if s = [] then Inr None
      else Inr (Some (Math_round (js_div (parseInt (replace_first CHR ''s'' s)) 60))))"

definition calculateDriveTime :: "env \<Rightarrow> string \<Rightarrow> int jsnum option \<times> event list" where
  "calculateDriveTime e destination =
     (if \<not> truthy (apiKey e) then (None, [])
      else
        (case directions e destination of
           FetchThrew \<Rightarrow>
             (None, [FetchDirections destination, ConsoleError ''Failed to calculate drive time''])
         | Response ok body \<Rightarrow>
             if \<not> ok then (None, [FetchDirections destination])
             else
               (case body of
                  None \<Rightarrow>
                    (None, [FetchDirections destination,
                            ConsoleError ''Failed to calculate drive time''])
                | Some data \<Rightarrow>
                    (case read_duration data of
                       Inl _ \<Rightarrow>
                         (None, [FetchDirections destination,
                                 ConsoleError ''Failed to calculate drive time''])
                     | Inr r \<Rightarrow> (r, [FetchDirections destination])))))"

subsection \<open>handleAutoFillLocation\<close>

text \<open>
  \<^verbatim>\<open>
  if (!formData.name) return;
  setSearching(true);
  try {
    const apiKey = import.meta.env.VITE_GOOGLE_MAPS_API_KEY;
    if (!apiKey) { alert("Google Maps API Key is missing"); return; }
    const searchResponse = await fetch(".../places:searchText", ...);
    if (!searchResponse.ok) throw new Error("Places Search failed");
    const searchData = await searchResponse.json();
    if (searchData.places && searchData.places.length > 0) {
      const place = searchData.places[0];
      const location = place.formattedAddress;
      setFormData((prev) => ({ ...prev, location }));
    } else {
      alert("No location found for this venue name");
    }
  } catch (error) {
    console.error("Failed to auto-fill location", error);
    alert("Failed to find location");
  } finally {
    setSearching(false);
  }
  \<close>
\<close>

definition autofill_failed :: "form_state \<Rightarrow> event list \<Rightarrow> form_state \<times> event list" where
  "autofill_failed st es =
     (st\<lparr>searching := False\<rparr>,
      es @ [ConsoleError ''Failed to auto-fill location'', Alert ''Failed to find location''])"

fun read_places :: "places_data \<Rightarrow> unit + jsstr option" where
  "read_places PDataNull = Inl ()"
| "read_places (PData PlacesAbsent) = Inr None"
| "read_places (PData (Places [])) = Inr None"
| "read_places (PData (Places (PlaceNull # ps))) = Inl ()"
| "read_places (PData (Places (Place formattedAddress # ps))) = Inr (Some formattedAddress)"

definition handleAutoFillLocation :: "env \<Rightarrow> form_state \<Rightarrow> form_state \<times> event list" where
  "handleAutoFillLocation e st =
     (if \<not> truthy (name (formData st)) then (st, [])
      else if \<not> truthy (apiKey e) then
        (st\<lparr>searching := False\<rparr>, [Alert ''Google Maps API Key is missing''])
      else
        (let textQuery = or_empty (name (formData st))
         in case places e textQuery of
              FetchThrew \<Rightarrow> autofill_failed st [FetchPlaces textQuery]
            | Response ok body \<Rightarrow>
                if \<not> ok then autofill_failed st [FetchPlaces textQuery]
                else
                  (case body of
                     None \<Rightarrow> autofill_failed st [FetchPlaces textQuery]
                   | Some searchData \<Rightarrow>
                       (case read_places searchData of
                          Inl _ \<Rightarrow> autofill_failed st [FetchPlaces textQuery]
                        | Inr None \<Rightarrow>
                            (st\<lparr>searching := False\<rparr>,
                             [FetchPlaces textQuery, Alert ''No location found for this venue name''])
                        | Inr (Some loc) \<Rightarrow>
                            (st\<lparr>formData := (formData st)\<lparr>location := loc\<rparr>, searching := False\<rparr>,
                             [FetchPlaces textQuery])))))"

subsection \<open>uploadImages\<close>

definition MAX_IMAGES :: nat where
  "MAX_IMAGES = 10"

text \<open>\<open>formData.images || []\<close>.\<close>

definition imgs :: "draft \<Rightarrow> string list" where
  "imgs fd = (case images fd of None \<Rightarrow> [] | Some xs \<Rightarrow> xs)"

text \<open>
  The loop over \<open>filesToUpload\<close>, with \<open>newImageUrls\<close> as accumulator. Each file is sent
  to the \<open>images\<close> bucket; the first failure throws out of the loop (\<open>None\<close>).
\<close>

fun upload_loop :: "env \<Rightarrow> jsfile list \<Rightarrow> string list \<Rightarrow> string list option \<times> event list" where
  "upload_loop e [] newImageUrls = (Some newImageUrls, [])"
| "upload_loop e (f # fs) newImageUrls =
     (case upload e ''images'' f of
        Uploaded publicUrl \<Rightarrow>
          (let (r, es) = upload_loop e fs (newImageUrls @ [publicUrl])
           in (r, StorageUpload ''images'' f # es))
      | _ \<Rightarrow> (None, [StorageUpload ''images'' f]))"

text \<open>
  \<^verbatim>\<open>
  if (files.length === 0) return;
  const currentImages = formData.images || [];
  if (currentImages.length >= MAX_IMAGES) {
    alert(`Maximum ${MAX_IMAGES} images allowed`);
    return;
  }
  const remainingSlots = MAX_IMAGES - currentImages.length;
  const filesToUpload = files.slice(0, remainingSlots);
  setLoading(true);
  try {
    ... the loop ...
    setFormData((prev) => ({ ...prev, images: [...(prev.images || []), ...newImageUrls] }));
  } catch (error) {
    console.error("Error uploading images:", error);
    alert("Error uploading images");
  } finally {
    setLoading(false);
  }
  \<close>
  One operation runs at a time: the draft seen by \<open>setFormData\<close> is the draft the
  operation started from.
\<close>

definition uploadImages :: "env \<Rightarrow> jsfile list \<Rightarrow> form_state \<Rightarrow> form_state \<times> event list" where
  "uploadImages e files st =
     (if files = [] then (st, [])
      else
        let currentImages = imgs (formData st)
        in if length currentImages \<ge> MAX_IMAGES then
             (st, [Alert ''Maximum 10 images allowed''])
           else
             let remainingSlots = MAX_IMAGES - length currentImages;
                 filesToUpload = take remainingSlots files
             in case upload_loop e filesToUpload [] of
                  (Some newImageUrls, es) \<Rightarrow>
                    (st\<lparr>formData := (formData st)\<lparr>images := Some (imgs (formData st) @ newImageUrls)\<rparr>,
                        form_loading := False\<rparr>, es)
                | (None, es) \<Rightarrow>
                    (st\<lparr>form_loading := False\<rparr>,
                     es @ [ConsoleError ''Error uploading images:'', Alert ''Error uploading images'']))"

text \<open>Whether an upload of a file succeeds, and the URL it then gets.\<close>

definition upload_ok :: "env \<Rightarrow> jsfile \<Rightarrow> bool" where
  "upload_ok e f = (case upload e ''images'' f of Uploaded u \<Rightarrow> True | _ \<Rightarrow> False)"


fun is_upload :: "event \<Rightarrow> bool" where
  "is_upload (StorageUpload b f) = True"
| "is_upload _ = False"

subsection \<open>handleSubmit\<close>

fun str_of :: "jsstr \<Rightarrow> string" where
  "str_of (Str s) = s"
| "str_of _ = []"

text \<open>
  \<^verbatim>\<open>
  let driveTime = formData.drive_time_minutes;
  const locationChanged = formData.location !== initialData?.location;
  const isNew = !formData.id;
  if (formData.location && (locationChanged || isNew)) {
    const calculatedTime = await calculateDriveTime(formData.location);
    if (calculatedTime !== null) { driveTime = calculatedTime; }
  }
  const dataToSave = { ...formData, active: formData.active ?? true,
                       drive_time_minutes: driveTime };
  if (formData.id) {
    const { error } = await supabase.from("venues").update(dataToSave).eq("id", formData.id);
    if (error) throw error;
  } else {
    const { error } = await supabase.from("venues").insert([dataToSave]);
    if (error) throw error;
  }
  onSave();
  \<close>
  inside \<open>try\<close>, with \<open>console.error\<close> and an alert in \<open>catch\<close> and
  \<open>setLoading(false)\<close> in \<open>finally\<close>.
\<close>

definition recompute_wanted :: "draft \<Rightarrow> row option \<Rightarrow> bool" where
  "recompute_wanted fd initialData =
     (let locationChanged = (location fd \<noteq> initial_location initialData);
          isNew = (venue_id fd = None)
      in truthy_str (location fd) \<and> (locationChanged \<or> isNew))"

definition new_drive_time :: "env \<Rightarrow> draft \<Rightarrow> row option \<Rightarrow> int jsnum option \<times> event list" where
  "new_drive_time e fd initialData =
     (let driveTime = drive_time_minutes fd
      in if recompute_wanted fd initialData then
           (let (calculatedTime, es) = calculateDriveTime e (str_of (location fd))
            in case calculatedTime of
                 None \<Rightarrow> (driveTime, es)
               | Some t \<Rightarrow> (Some t, es))
         else (driveTime, []))"

definition dataToSave :: "draft \<Rightarrow> int jsnum option \<Rightarrow> draft" where
  "dataToSave fd driveTime =
     fd\<lparr>active := Some (case active fd of None \<Rightarrow> True | Some b \<Rightarrow> b),
        drive_time_minutes := driveTime\<rparr>"

definition store_request :: "draft \<Rightarrow> draft \<Rightarrow> event" where
  "store_request fd d =
     (case venue_id fd of
        Some i \<Rightarrow> StoreUpdate i d
      | None \<Rightarrow> StoreInsert d)"

definition handleSubmit :: "env \<Rightarrow> row option \<Rightarrow> form_state \<Rightarrow> form_state \<times> event list" where
  "handleSubmit e initialData st =
     (let fd = formData st;
          (driveTime, es) = new_drive_time e fd initialData;
          request = store_request fd (dataToSave fd driveTime)
      in case store_write e of
           WriteOk \<Rightarrow> (st\<lparr>form_loading := False\<rparr>, es @ [request, OnSave])
         | _ \<Rightarrow>
             (st\<lparr>form_loading := False\<rparr>,
              es @ [request, ConsoleError ''Error saving venue:'', Alert ''Error saving venue'']))"

text \<open>Reading the trace of a save: the store writes, the directions requests, the row sent.\<close>

fun is_store_write :: "event \<Rightarrow> bool" where
  "is_store_write (StoreUpdate i d) = True"
| "is_store_write (StoreInsert d) = True"
| "is_store_write _ = False"

fun is_directions :: "event \<Rightarrow> bool" where
  "is_directions (FetchDirections d) = True"
| "is_directions _ = False"

definition directions_calls :: "event list \<Rightarrow> nat" where
  "directions_calls es = length (filter is_directions es)"

fun sent_rows :: "event list \<Rightarrow> draft list" where
  "sent_rows [] = []"
| "sent_rows (StoreUpdate i d # es) = d # sent_rows es"
| "sent_rows (StoreInsert d # es) = d # sent_rows es"
| "sent_rows (_ # es) = sent_rows es"

subsection \<open>Concrete collaborators and drafts, for examples\<close>

definition directions_1234 :: "string \<Rightarrow> directions_data fetch_outcome" where
  "directions_1234 dest = Response True (Some (Data (Routes [Route (DurStr ''1234s'')])))"


definition places_none :: "string \<Rightarrow> places_data fetch_outcome" where
  "places_none q = Response True (Some (PData (Places [])))"

definition upload_all :: "string \<Rightarrow> jsfile \<Rightarrow> upload_outcome" where
  "upload_all bucket f = (case f of File n \<Rightarrow> Uploaded (''https://cdn/'' @ n))"

definition upload_not_b :: "string \<Rightarrow> jsfile \<Rightarrow> upload_outcome" where
  "upload_not_b bucket f =
     (case f of File n \<Rightarrow> if n = ''b.png'' then UploadError else Uploaded (''https://cdn/'' @ n))"

definition env_ok :: env where
  "env_ok = \<lparr>apiKey = Some ''key'', directions = directions_1234, places = places_none,
     upload = upload_all, store_write = WriteOk\<rparr>"

definition env_nokey :: env where
  "env_nokey = env_ok\<lparr>apiKey := None\<rparr>"


definition env_upload_fails :: env where
  "env_upload_fails = env_ok\<lparr>upload := upload_not_b\<rparr>"

definition form_of :: "draft \<Rightarrow> form_state" where
  "form_of fd = \<lparr>formData = fd, form_loading = False, searching = False\<rparr>"

definition new_castle :: draft where
  "new_castle = (init_formData None)\<lparr>name := Some ''Castle'', location := Str ''Stirling''\<rparr>"

definition castle_row :: row where
  "castle_row = (mk_row ''Castle'' (Some 55) (Some ''1,200''))
     \<lparr>venue_id := Some (Ident 7), location := Str ''Stirling''\<rparr>"


definition loaded_app :: app_state where
  "loaded_app = initial_app\<lparr>venues := [castle_row], loading := False\<rparr>"

section \<open>Properties\<close>

subsection \<open>Decimal rendering\<close>

lemma Math_floor_div_60: "Math_floor_div m 60 = m div 60"
proof -
  have "\<lfloor>rat_of_int m / rat_of_int 60\<rfloor> = m div 60"
    by (rule floor_divide_of_int_eq)
  then show ?thesis by (simp add: Math_floor_div_def)
qed

lemma js_rem_60: "0 \<le> m \<Longrightarrow> js_rem m 60 = m mod 60"
  by (cases "m = 0") (simp_all add: js_rem_def)

lemma show_nat_lt10: "n < 10 \<Longrightarrow> show_nat n = [digit_char n]"
  by (simp add: show_nat.simps [of n])

lemma show_nat_ge10: "10 \<le> n \<Longrightarrow> show_nat n = show_nat (n div 10) @ [digit_char (n mod 10)]"
  by (simp add: show_nat.simps [of n])

lemmas show_dec = show_int_def show_nat_lt10 show_nat_ge10 digit_char_def

lemma formatDriveTime_ge60:
  "60 \<le> n \<Longrightarrow> formatDriveTime (Some n) =
      Some (show_int (n div 60) @ '' hr '' @ show_int (n mod 60) @ '' mins'')"
  by (simp add: formatDriveTime_def Math_floor_div_60 js_rem_60)

text \<open>
  C7. \<open>formatDriveTime\<close> gives no display value for null and for 0; for a positive value
  under 60 it gives "N mins"; for 60 or more it gives "H hr M mins" with H the whole
  quotient by 60 and M the remainder, an exact hour still ending in "0 mins".
  So 45 gives "45 mins", 90 gives "1 hr 30 mins" and 120 gives "2 hr 0 mins".
\<close>

theorem formatDriveTime_spec:
  "formatDriveTime None = None
   \<and> formatDriveTime (Some 0) = None
   \<and> (0 < n \<and> n < 60 \<longrightarrow> formatDriveTime (Some n) = Some (show_int n @ '' mins''))
   \<and> (60 \<le> n \<longrightarrow> formatDriveTime (Some n) =
         Some (show_int (n div 60) @ '' hr '' @ show_int (n mod 60) @ '' mins''))
   \<and> (60 \<le> n \<and> n mod 60 = 0 \<longrightarrow> formatDriveTime (Some n) =
         Some (show_int (n div 60) @ '' hr 0 mins''))
   \<and> formatDriveTime (Some 45) = Some ''45 mins''
   \<and> formatDriveTime (Some 90) = Some ''1 hr 30 mins''
   \<and> formatDriveTime (Some 120) = Some ''2 hr 0 mins''"
proof -
  have null: "formatDriveTime None = None" and zero: "formatDriveTime (Some 0) = None"
    by (simp_all add: formatDriveTime_def)
  have small: "0 < n \<and> n < 60 \<longrightarrow> formatDriveTime (Some n) = Some (show_int n @ '' mins'')"
    by (simp add: formatDriveTime_def)
  have large: "60 \<le> n \<longrightarrow> formatDriveTime (Some n) =
      Some (show_int (n div 60) @ '' hr '' @ show_int (n mod 60) @ '' mins'')"
    by (simp add: formatDriveTime_ge60)
  have exact: "60 \<le> n \<and> n mod 60 = 0 \<longrightarrow> formatDriveTime (Some n) =
      Some (show_int (n div 60) @ '' hr 0 mins'')"
    by (simp add: formatDriveTime_ge60 show_dec)
  have e45: "formatDriveTime (Some 45) = Some ''45 mins''"
    by (simp add: formatDriveTime_def show_dec)
  have e90: "formatDriveTime (Some 90) = Some ''1 hr 30 mins''"
    by (simp add: formatDriveTime_ge60 show_dec)
  have e120: "formatDriveTime (Some 120) = Some ''2 hr 0 mins''"
    by (simp add: formatDriveTime_ge60 show_dec)
  from null zero small large exact e45 e90 e120 show ?thesis
    by blast
qed

theorem formatDriveTime_spec_witness:
  "(0::int) < 59 \<and> (59::int) < 60 \<and> formatDriveTime (Some 59) = Some ''59 mins''"
  using formatDriveTime_spec [of 59] by (simp add: show_dec)

subsection \<open>The sort\<close>

lemma js_insort_insort_key:
  fixes key :: "'a \<Rightarrow> 'k::linorder"
  assumes "\<And>x y. js_gt0 (cmp x y) = (key y < key x)"
  shows "js_insort cmp x ys = insort_key key x ys"
  by (induction ys) (auto simp: assms)

lemma js_sort_sort_key:
  fixes key :: "'a \<Rightarrow> 'k::linorder"
  assumes "\<And>x y. js_gt0 (cmp x y) = (key y < key x)"
  shows "js_sort cmp xs = sort_key key xs"
  unfolding js_sort_def sort_key_def
  by (induction xs) (simp_all add: js_insort_insort_key [OF assms])

lemma dist_key_le: "dist_key a \<le> dist_key b \<longleftrightarrow> dist_le a b"
  by (cases a; cases b) (auto simp: dist_key_def)

lemma dist_key_inj: "dist_key a = dist_key b \<longleftrightarrow> a = b"
  by (cases a; cases b) (auto simp: dist_key_def)

lemma compare_Distance:
  "js_gt0 (venue_compare lc Distance a b) = (dist_key (drive_time_minutes b) < dist_key (drive_time_minutes a))"
  by (cases "drive_time_minutes a"; cases "drive_time_minutes b")
     (auto simp: venue_compare_def or_Infinity_def dist_key_def)

lemma sortedVenues_Distance_sort_key:
  "sortedVenues lc Distance vs = sort_key (\<lambda>v. dist_key (drive_time_minutes v)) vs"
  unfolding sortedVenues_def
  by (rule js_sort_sort_key) (rule compare_Distance)

lemma sorted_wrt_later:
  assumes "sorted_wrt P xs" "i < j" "j < length xs"
  shows "P (xs ! i) (xs ! j)"
  using assms by (simp add: sorted_wrt_iff_nth_less)

lemma distance_sorted:
  "sorted_wrt (\<lambda>a b. dist_le (drive_time_minutes a) (drive_time_minutes b)) (sortedVenues lc Distance vs)"
proof -
  have "sorted (map (\<lambda>v. dist_key (drive_time_minutes v)) (sortedVenues lc Distance vs))"
    by (simp add: sortedVenues_Distance_sort_key)
  then show ?thesis
    by (simp add: sorted_map dist_key_le)
qed

lemma distance_stable:
  "filter (\<lambda>v. drive_time_minutes v = k) (sortedVenues lc Distance vs)
     = filter (\<lambda>v. drive_time_minutes v = k) vs"
proof -
  have "filter (\<lambda>v. dist_key (drive_time_minutes v) = dist_key k) (sortedVenues lc Distance vs)
     = filter (\<lambda>v. dist_key (drive_time_minutes v) = dist_key k) vs"
    unfolding sortedVenues_Distance_sort_key by (rule sort_key_stable)
  then show ?thesis by (simp add: dist_key_inj)
qed

lemma distance_example:
  "map name (sortedVenues lc Distance
       [mk_row ''A'' (Some 30) None, mk_row ''B'' None None, mk_row ''C'' (Some 10) None])
     = [Some ''C'', Some ''A'', Some ''B'']"
  by (simp add: sortedVenues_def js_sort_def venue_compare_def or_Infinity_def mk_row_def)

text \<open>
  C8. Sorting by distance is ascending in \<open>drive_time_minutes\<close> with null as +infinity: the
  result is a permutation of the fetched list, ordered by \<open>dist_le\<close>; a venue with a null
  value is followed only by venues with a null value; venues with equal values keep their
  fetch order. The list A:30, B:null, C:10 sorts as C, A, B.
\<close>

theorem sortedVenues_distance:
  "mset (sortedVenues lc Distance vs) = mset vs
   \<and> sorted_wrt (\<lambda>a b. dist_le (drive_time_minutes a) (drive_time_minutes b))
        (sortedVenues lc Distance vs)
   \<and> (\<forall>i j. i < j \<and> j < length vs \<and> drive_time_minutes (sortedVenues lc Distance vs ! i) = None
         \<longrightarrow> drive_time_minutes (sortedVenues lc Distance vs ! j) = None)
   \<and> (\<forall>k. filter (\<lambda>v. drive_time_minutes v = k) (sortedVenues lc Distance vs)
           = filter (\<lambda>v. drive_time_minutes v = k) vs)
   \<and> map name (sortedVenues lc Distance
       [mk_row ''A'' (Some 30) None, mk_row ''B'' None None, mk_row ''C'' (Some 10) None])
     = [Some ''C'', Some ''A'', Some ''B'']"
proof -
  let ?out = "sortedVenues lc Distance vs"
  have perm: "mset ?out = mset vs"
    by (simp add: sortedVenues_Distance_sort_key)
  then have len: "length ?out = length vs"
    by (rule mset_eq_length)
  have nulls: "drive_time_minutes (?out ! j) = None"
    if "i < j" "j < length vs" "drive_time_minutes (?out ! i) = None" for i j
  proof -
    have "dist_le (drive_time_minutes (?out ! i)) (drive_time_minutes (?out ! j))"
      using sorted_wrt_later [OF distance_sorted, of i j lc vs] that len by simp
    with that(3) show ?thesis
      by (cases "drive_time_minutes (?out ! j)") simp_all
  qed
  from perm distance_sorted nulls distance_stable distance_example show ?thesis
    by blast
qed

theorem sortedVenues_distance_witness:
  "drive_time_minutes (sortedVenues lc0 Distance
      [mk_row ''B'' None None, mk_row ''A'' (Some 30) None, mk_row ''D'' None None] ! 1) = None
   \<and> drive_time_minutes (sortedVenues lc0 Distance
      [mk_row ''B'' None None, mk_row ''A'' (Some 30) None, mk_row ''D'' None None] ! 2) = None"
proof -
  let ?vs = "[mk_row ''B'' None None, mk_row ''A'' (Some 30) None, mk_row ''D'' None None]"
  have ev: "map name (sortedVenues lc0 Distance ?vs) = [Some ''A'', Some ''B'', Some ''D'']"
    by (simp add: sortedVenues_def js_sort_def venue_compare_def or_Infinity_def mk_row_def)
  have one: "drive_time_minutes (sortedVenues lc0 Distance ?vs ! 1) = None"
    by (simp add: sortedVenues_def js_sort_def venue_compare_def or_Infinity_def mk_row_def)
  have "(1::nat) < 2 \<and> 2 < length ?vs" by simp
  with one sortedVenues_distance [of lc0 ?vs] show ?thesis
    by blast
qed


subsection \<open>The price heuristic\<close>




lemma digit_not_space: "is_digit c \<Longrightarrow> \<not> is_js_space c"
  by (auto simp: is_digit_def is_js_space_def)

lemma digit_not_sign: "is_digit c \<Longrightarrow> c \<noteq> CHR ''-'' \<and> c \<noteq> CHR ''+''"
  by (auto simp: is_digit_def)

lemma parseInt_digits:
  assumes "ds \<noteq> []" "\<And>c. c \<in> set ds \<Longrightarrow> is_digit c"
  shows "parseInt ds = Num (int (dec_value ds))"
proof -
  obtain c cs where ds: "ds = c # cs"
    using assms(1) by (cases ds) auto
  have c: "is_digit c" using assms(2) ds by simp
  have drop: "dropWhile is_js_space ds = ds"
    using c ds by (simp add: digit_not_space)
  have tw: "takeWhile is_digit ds = ds"
    using assms(2) by simp
  show ?thesis
    unfolding parseInt_def drop
    using digit_not_sign [OF c] ds tw by (simp add: Let_def)
qed















subsection \<open>The list controller\<close>

lemma fetchVenues_failed:
  assumes "fetch_failed answer"
  shows "fetchVenues answer st = (st\<lparr>loading := False\<rparr>, [StoreSelect, ConsoleError ''Error fetching venues:''])"
  using assms by (cases answer) (simp_all add: fetchVenues_def)

text \<open>
  C6 as stated fails: a fetch that fails when venues are already in memory (the refetch
  that \<open>handleSave\<close> starts) leaves those venues in the list, which is then not empty.
\<close>

theorem fetchVenues_failure_counterexample:
  "fetch_failed SelectThrew
   \<and> venues (fst (fetchVenues SelectThrew loaded_app)) = [castle_row]
   \<and> venues (fst (handleSave SelectThrew loaded_app)) \<noteq> []"
  by (simp add: fetchVenues_def handleSave_def loaded_app_def)

text \<open>
  C6, amended. Whenever the fetch fails, the error is logged, the loading flag is
  cleared and the in-memory list is left as it was when the fetch started, also through
  \<open>handleSave\<close>; it is empty when the failing fetch is the first one after mounting.
\<close>

theorem fetchVenues_failure:
  "fetch_failed answer \<longrightarrow>
     snd (fetchVenues answer st) = [StoreSelect, ConsoleError ''Error fetching venues:'']
     \<and> loading (fst (fetchVenues answer st)) = False
     \<and> venues (fst (fetchVenues answer st)) = venues st
     \<and> venues (fst (handleSave answer st)) = venues st
     \<and> loading (fst (handleSave answer st)) = False
     \<and> venues (fst (fetchVenues answer initial_app)) = []"
proof
  assume f: "fetch_failed answer"
  show "snd (fetchVenues answer st) = [StoreSelect, ConsoleError ''Error fetching venues:'']
     \<and> loading (fst (fetchVenues answer st)) = False
     \<and> venues (fst (fetchVenues answer st)) = venues st
     \<and> venues (fst (handleSave answer st)) = venues st
     \<and> loading (fst (handleSave answer st)) = False
     \<and> venues (fst (fetchVenues answer initial_app)) = []"
    by (simp add: fetchVenues_failed [OF f] handleSave_def initial_app_def)
qed

theorem fetchVenues_failure_witness:
  "fetch_failed (SelectResolved None True)
   \<and> venues (fst (fetchVenues (SelectResolved None True) loaded_app)) = [castle_row]
   \<and> loading (fst (fetchVenues (SelectResolved None True) loaded_app)) = False"
  using fetchVenues_failure [of "SelectResolved None True" loaded_app]
  by (simp add: loaded_app_def)

subsection \<open>Auto-fill\<close>

text \<open>
  C10. With an empty or absent name, auto-fill does nothing: no request to the places
  API, no alert, no console output, and the form state, draft included, is unchanged.
\<close>

theorem handleAutoFillLocation_no_name:
  "\<not> truthy (name (formData st)) \<longrightarrow> handleAutoFillLocation e st = (st, [])"
  by (simp add: handleAutoFillLocation_def)

theorem handleAutoFillLocation_no_name_witness:
  "\<not> truthy (name (init_formData None))
   \<and> handleAutoFillLocation env_ok (form_of (init_formData None)) = (form_of (init_formData None), [])"
proof -
  have n: "\<not> truthy (name (formData (form_of (init_formData None))))"
    by (simp add: form_of_def init_formData_def)
  then have "handleAutoFillLocation env_ok (form_of (init_formData None)) = (form_of (init_formData None), [])"
    using handleAutoFillLocation_no_name [of "form_of (init_formData None)" env_ok] by blast
  with n show ?thesis by (simp add: form_of_def)
qed

subsection \<open>Drive time\<close>

lemma calculateDriveTime_no_write:
  "filter is_store_write (snd (calculateDriveTime e dest)) = []"
  by (simp add: calculateDriveTime_def split: fetch_outcome.splits option.splits sum.splits)

lemma calculateDriveTime_calls:
  "directions_calls (snd (calculateDriveTime e dest)) = (if truthy (apiKey e) then 1 else 0)"
  by (simp add: calculateDriveTime_def directions_calls_def
      split: fetch_outcome.splits option.splits sum.splits)

lemma replace_first_absent: "c \<notin> set xs \<Longrightarrow> replace_first c (xs @ [c]) = xs"
  by (induction xs) auto

lemma s_not_digit: "\<not> is_digit CHR ''s''"
  by (simp add: is_digit_def)

lemma Math_round_div_60: "Math_round (js_div (Num n) 60) = Num ((n + 30) div 60)"
proof -
  have "rat_of_int n / 60 + 1 / 2 = rat_of_int (n + 30) / rat_of_int 60"
    by (simp add: field_simps)
  then have "\<lfloor>rat_of_int n / 60 + 1 / 2\<rfloor> = (n + 30) div 60"
    by (simp only: floor_divide_of_int_eq)
  then show ?thesis by simp
qed

lemma read_duration_conforming:
  assumes "ds \<noteq> []" "\<And>c. c \<in> set ds \<Longrightarrow> is_digit c"
  shows "read_duration (Data (Routes (Route (DurStr (ds @ ''s'')) # rs)))
     = Inr (Some (Num ((int (dec_value ds) + 30) div 60)))"
proof -
  have "CHR ''s'' \<notin> set ds"
    using assms(2) s_not_digit by blast
  then have "replace_first CHR ''s'' (ds @ ''s'') = ds"
    using replace_first_absent [of "CHR ''s''" ds] by simp
  then have "read_duration (Data (Routes (Route (DurStr (ds @ ''s'')) # rs)))
      = Inr (Some (Math_round (js_div (parseInt ds) 60)))"
    by simp
  also have "parseInt ds = Num (int (dec_value ds))"
    using assms by (rule parseInt_digits)
  finally show ?thesis
    by (simp only: Math_round_div_60)
qed

lemma calculateDriveTime_body:
  assumes "truthy (apiKey e)" "directions e dest = Response True (Some data)"
  shows "fst (calculateDriveTime e dest) = (case read_duration data of Inl u \<Rightarrow> None | Inr r \<Rightarrow> r)"
  using assms by (simp add: calculateDriveTime_def split: sum.splits)

lemma calculateDriveTime_env_ok: "fst (calculateDriveTime env_ok dest) = Some (Num 21)"
proof -
  have k: "truthy (apiKey env_ok)"
    by (simp add: env_ok_def)
  have r: "directions env_ok dest
      = Response True (Some (Data (Routes (Route (DurStr (''1234'' @ ''s'')) # []))))"
    by (simp add: env_ok_def directions_1234_def)
  have "read_duration (Data (Routes (Route (DurStr (''1234'' @ ''s'')) # [])))
      = Inr (Some (Num ((int (dec_value ''1234'') + 30) div 60)))"
    by (rule read_duration_conforming) (auto simp: is_digit_def)
  also have "(int (dec_value ''1234'') + 30) div 60 = 21"
    by (simp add: dec_value_def digit_val_def)
  finally show ?thesis
    using calculateDriveTime_body [OF k r] by simp
qed





subsection \<open>Saving\<close>

lemma new_drive_time_events:
  "snd (new_drive_time e fd initialData)
     = (if recompute_wanted fd initialData
        then snd (calculateDriveTime e (str_of (location fd))) else [])"
  by (simp add: new_drive_time_def Let_def split: prod.splits option.splits)

lemma new_drive_time_no_write:
  "filter is_store_write (snd (new_drive_time e fd initialData)) = []"
  by (simp add: new_drive_time_events calculateDriveTime_no_write)

lemma new_drive_time_calls:
  "directions_calls (snd (new_drive_time e fd initialData))
     = (if truthy (apiKey e) \<and> recompute_wanted fd initialData then 1 else 0)"
  by (simp add: new_drive_time_events calculateDriveTime_calls) (simp add: directions_calls_def)

lemma new_drive_time_value:
  "fst (new_drive_time e fd initialData)
     = (if recompute_wanted fd initialData
        then (case fst (calculateDriveTime e (str_of (location fd))) of
                None \<Rightarrow> drive_time_minutes fd
              | Some t \<Rightarrow> Some t)
        else drive_time_minutes fd)"
  by (simp add: new_drive_time_def Let_def split: prod.splits option.splits)

lemma is_store_write_request: "is_store_write (store_request fd d)"
  by (simp add: store_request_def split: option.splits)

lemma is_directions_request: "\<not> is_directions (store_request fd d)"
  by (simp add: store_request_def split: option.splits)

lemma sent_rows_append: "sent_rows (xs @ ys) = sent_rows xs @ sent_rows ys"
  by (induction xs rule: sent_rows.induct) simp_all

lemma sent_rows_no_write: "filter is_store_write es = [] \<Longrightarrow> sent_rows es = []"
  by (induction es rule: sent_rows.induct) (simp_all split: if_splits)

lemma sent_rows_request: "sent_rows [store_request fd d] = [d]"
  by (simp add: store_request_def split: option.splits)

lemma handleSubmit_events:
  "snd (handleSubmit e initialData st)
     = snd (new_drive_time e (formData st) initialData)
       @ store_request (formData st)
           (dataToSave (formData st) (fst (new_drive_time e (formData st) initialData)))
       # (case store_write e of
            WriteOk \<Rightarrow> [OnSave]
          | _ \<Rightarrow> [ConsoleError ''Error saving venue:'', Alert ''Error saving venue''])"
  by (simp add: handleSubmit_def Let_def split: prod.splits write_outcome.splits)

lemma handleSubmit_writes:
  "filter is_store_write (snd (handleSubmit e initialData st))
     = [store_request (formData st)
          (dataToSave (formData st) (fst (new_drive_time e (formData st) initialData)))]"
  by (simp add: handleSubmit_events new_drive_time_no_write is_store_write_request
      split: write_outcome.splits)

lemma handleSubmit_calls:
  "directions_calls (snd (handleSubmit e initialData st))
     = (if truthy (apiKey e) \<and> recompute_wanted (formData st) initialData then 1 else 0)"
proof -
  have "directions_calls (snd (handleSubmit e initialData st))
      = directions_calls (snd (new_drive_time e (formData st) initialData))"
    by (simp add: handleSubmit_events directions_calls_def is_directions_request
        split: write_outcome.splits)
  then show ?thesis
    by (simp only: new_drive_time_calls)
qed

lemma handleSubmit_sent:
  "sent_rows (snd (handleSubmit e initialData st))
     = [dataToSave (formData st) (fst (new_drive_time e (formData st) initialData))]"
proof -
  let ?d = "dataToSave (formData st) (fst (new_drive_time e (formData st) initialData))"
  have tail: "sent_rows (case store_write e of
            WriteOk \<Rightarrow> [OnSave]
          | _ \<Rightarrow> [ConsoleError ''Error saving venue:'', Alert ''Error saving venue'']) = []"
    by (simp split: write_outcome.splits)
  have "sent_rows (snd (handleSubmit e initialData st))
      = sent_rows (snd (new_drive_time e (formData st) initialData))
        @ sent_rows [store_request (formData st) ?d]
        @ sent_rows (case store_write e of
            WriteOk \<Rightarrow> [OnSave]
          | _ \<Rightarrow> [ConsoleError ''Error saving venue:'', Alert ''Error saving venue''])"
    unfolding handleSubmit_events sent_rows_append [symmetric] by simp
  then show ?thesis
    by (simp add: tail sent_rows_request sent_rows_no_write [OF new_drive_time_no_write])
qed

text \<open>
  C2. Every save issues exactly one store write: an insert of the reconciled draft when
  the draft has no identifier, an update keyed by the identifier when it has one.
\<close>

theorem handleSubmit_one_write:
  "length (filter is_store_write (snd (handleSubmit e initialData st))) = 1
   \<and> (venue_id (formData st) = None \<longrightarrow>
        filter is_store_write (snd (handleSubmit e initialData st))
          = [StoreInsert (dataToSave (formData st)
               (fst (new_drive_time e (formData st) initialData)))])
   \<and> (venue_id (formData st) = Some i \<longrightarrow>
        filter is_store_write (snd (handleSubmit e initialData st))
          = [StoreUpdate i (dataToSave (formData st)
               (fst (new_drive_time e (formData st) initialData)))])"
  by (simp add: handleSubmit_writes store_request_def)

theorem handleSubmit_one_write_witness:
  "venue_id new_castle = None
   \<and> filter is_store_write (snd (handleSubmit env_ok None (form_of new_castle)))
       = [StoreInsert (new_castle\<lparr>drive_time_minutes := Some (Num 21)\<rparr>)]
   \<and> venue_id (init_formData (Some castle_row)) = Some (Ident 7)
   \<and> filter is_store_write
        (snd (handleSubmit env_ok (Some castle_row) (form_of (init_formData (Some castle_row)))))
       = [StoreUpdate (Ident 7) (init_formData (Some castle_row))]"
proof -
  have n: "venue_id (formData (form_of new_castle)) = None"
    by (simp add: form_of_def new_castle_def init_formData_def)
  have o: "venue_id (formData (form_of (init_formData (Some castle_row)))) = Some (Ident 7)"
    by (simp add: form_of_def init_formData_def castle_row_def mk_row_def)
  have w: "recompute_wanted new_castle None"
    "\<not> recompute_wanted (init_formData (Some castle_row)) (Some castle_row)"
    by (simp_all add: recompute_wanted_def new_castle_def init_formData_def initial_location_def
        castle_row_def mk_row_def)
  have c: "fst (calculateDriveTime env_ok ''Stirling'') = Some (Num 21)"
    by (rule calculateDriveTime_env_ok)
  have l: "str_of (location new_castle) = ''Stirling''"
    by (simp add: new_castle_def)
  have d1: "dataToSave new_castle (fst (new_drive_time env_ok new_castle None))
      = new_castle\<lparr>drive_time_minutes := Some (Num 21)\<rparr>"
    by (simp add: new_drive_time_value w l c dataToSave_def) (simp add: new_castle_def init_formData_def)
  have d2: "dataToSave (init_formData (Some castle_row))
       (fst (new_drive_time env_ok (init_formData (Some castle_row)) (Some castle_row)))
      = init_formData (Some castle_row)"
    by (simp add: new_drive_time_value w dataToSave_def) (simp add: init_formData_def)
  have a: "filter is_store_write (snd (handleSubmit env_ok None (form_of new_castle)))
       = [StoreInsert (new_castle\<lparr>drive_time_minutes := Some (Num 21)\<rparr>)]"
    using n handleSubmit_one_write [of env_ok None "form_of new_castle"] d1
    by (simp add: form_of_def)
  have b: "filter is_store_write
        (snd (handleSubmit env_ok (Some castle_row) (form_of (init_formData (Some castle_row)))))
       = [StoreUpdate (Ident 7) (init_formData (Some castle_row))]"
    using o handleSubmit_one_write [of env_ok "Some castle_row"
        "form_of (init_formData (Some castle_row))" "Ident 7"] d2
    by (simp add: form_of_def)
  from n o a b show ?thesis
    by (simp add: form_of_def)
qed


text \<open>
  C4 as stated fails when no API key is configured: a new draft with a location is saved
  without any request to the directions API.
\<close>

theorem handleSubmit_directions_counterexample:
  "truthy_str (location (formData (form_of new_castle)))
   \<and> venue_id (formData (form_of new_castle)) = None
   \<and> directions_calls (snd (handleSubmit env_nokey None (form_of new_castle))) = 0"
  by (simp add: handleSubmit_calls env_nokey_def env_ok_def)
     (simp add: form_of_def new_castle_def init_formData_def)

text \<open>
  C4, amended. On save the drive time is recomputed if and only if the location is
  non-empty and either differs from the pre-edit snapshot or the draft has no
  identifier; the directions API is then requested exactly once when an API key is
  configured, and never otherwise. Editing a record without changing its location never
  requests it. When the drive time is not recomputed, or the recomputation returns null,
  the row sent to the store carries the draft's previous \<open>drive_time_minutes\<close>, which is
  null in a new draft.
\<close>

theorem handleSubmit_drive_time:
  "(recompute_wanted (formData st) initialData \<longleftrightarrow>
      truthy_str (location (formData st))
      \<and> (location (formData st) \<noteq> initial_location initialData \<or> venue_id (formData st) = None))
   \<and> directions_calls (snd (handleSubmit e initialData st))
       = (if truthy (apiKey e) \<and> recompute_wanted (formData st) initialData then 1 else 0)
   \<and> (venue_id (formData st) \<noteq> None \<and> location (formData st) = initial_location initialData
        \<longrightarrow> directions_calls (snd (handleSubmit e initialData st)) = 0)
   \<and> (\<not> recompute_wanted (formData st) initialData
        \<or> fst (calculateDriveTime e (str_of (location (formData st)))) = None
        \<longrightarrow> map drive_time_minutes (sent_rows (snd (handleSubmit e initialData st)))
            = [drive_time_minutes (formData st)])
   \<and> drive_time_minutes (init_formData None) = None"
proof -
  have want: "recompute_wanted (formData st) initialData \<longleftrightarrow>
      truthy_str (location (formData st))
      \<and> (location (formData st) \<noteq> initial_location initialData \<or> venue_id (formData st) = None)"
    by (simp add: recompute_wanted_def)
  have calls: "directions_calls (snd (handleSubmit e initialData st))
       = (if truthy (apiKey e) \<and> recompute_wanted (formData st) initialData then 1 else 0)"
    by (rule handleSubmit_calls)
  have unchanged: "venue_id (formData st) \<noteq> None \<and> location (formData st) = initial_location initialData
        \<longrightarrow> directions_calls (snd (handleSubmit e initialData st)) = 0"
    by (simp add: calls want)
  have kept: "\<not> recompute_wanted (formData st) initialData
        \<or> fst (calculateDriveTime e (str_of (location (formData st)))) = None
        \<longrightarrow> map drive_time_minutes (sent_rows (snd (handleSubmit e initialData st)))
            = [drive_time_minutes (formData st)]"
    by (auto simp: handleSubmit_sent new_drive_time_value dataToSave_def)
  have fresh: "drive_time_minutes (init_formData None) = None"
    by (simp add: init_formData_def)
  from want calls unchanged kept fresh show ?thesis
    by blast
qed

theorem handleSubmit_drive_time_witness:
  "directions_calls (snd (handleSubmit env_ok None (form_of new_castle))) = 1
   \<and> directions_calls
        (snd (handleSubmit env_ok (Some castle_row) (form_of (init_formData (Some castle_row))))) = 0
   \<and> map drive_time_minutes
        (sent_rows (snd (handleSubmit env_ok (Some castle_row)
           (form_of (init_formData (Some castle_row)))))) = [Some (Num 55)]"
proof -
  let ?edit = "form_of (init_formData (Some castle_row))"
  have k: "truthy (apiKey env_ok)"
    by (simp add: env_ok_def)
  have w: "recompute_wanted (formData (form_of new_castle)) None"
    by (simp add: recompute_wanted_def new_castle_def init_formData_def initial_location_def
        form_of_def)
  have same: "venue_id (formData ?edit) \<noteq> None
      \<and> location (formData ?edit) = initial_location (Some castle_row)"
    by (simp add: form_of_def init_formData_def castle_row_def mk_row_def initial_location_def)
  have nw: "\<not> recompute_wanted (formData ?edit) (Some castle_row)"
    using same handleSubmit_drive_time [of ?edit "Some castle_row" env_ok] by simp
  have d: "drive_time_minutes (formData ?edit) = Some (Num 55)"
    by (simp add: form_of_def init_formData_def castle_row_def mk_row_def)
  have a: "directions_calls (snd (handleSubmit env_ok None (form_of new_castle))) = 1"
    using k w handleSubmit_drive_time [of "form_of new_castle" None env_ok] by simp
  have b: "directions_calls (snd (handleSubmit env_ok (Some castle_row) ?edit)) = 0"
    using same handleSubmit_drive_time [of ?edit "Some castle_row" env_ok] by simp
  have c: "map drive_time_minutes (sent_rows (snd (handleSubmit env_ok (Some castle_row) ?edit)))
      = [drive_time_minutes (formData ?edit)]"
    using nw handleSubmit_drive_time [of ?edit "Some castle_row" env_ok,
        THEN conjunct2, THEN conjunct2, THEN conjunct2, THEN conjunct1]
    by blast
  from a b c d show ?thesis
    by simp
qed

subsection \<open>Image upload\<close>


lemma upload_loop_some_fails:
  "\<exists>f \<in> set fs. \<not> upload_ok e f \<Longrightarrow>
     upload_loop e fs acc
       = (None, map (StorageUpload ''images'')
                  (takeWhile (upload_ok e) fs @ [hd (dropWhile (upload_ok e) fs)]))"
proof (induction fs arbitrary: acc)
  case Nil
  then show ?case by simp
next
  case (Cons f fs)
  show ?case
  proof (cases "upload_ok e f")
    case True
    then obtain u where u: "upload e ''images'' f = Uploaded u"
      by (auto simp: upload_ok_def split: upload_outcome.splits)
    from True Cons.prems have "\<exists>g \<in> set fs. \<not> upload_ok e g"
      by auto
    from Cons.IH [OF this] True u show ?thesis
      by simp
  next
    case False
    then show ?thesis
      by (auto simp: upload_ok_def split: upload_outcome.splits)
  qed
qed



lemma uploadImages_some_fails:
  assumes "files \<noteq> []" "length (imgs (formData st)) < MAX_IMAGES"
    "\<exists>f \<in> set (take (MAX_IMAGES - length (imgs (formData st))) files). \<not> upload_ok e f"
  shows "uploadImages e files st
     = (st\<lparr>form_loading := False\<rparr>,
        map (StorageUpload ''images'')
          (takeWhile (upload_ok e) (take (MAX_IMAGES - length (imgs (formData st))) files)
           @ [hd (dropWhile (upload_ok e) (take (MAX_IMAGES - length (imgs (formData st))) files))])
        @ [ConsoleError ''Error uploading images:'', Alert ''Error uploading images''])"
  using assms by (simp add: uploadImages_def Let_def upload_loop_some_fails)






text \<open>
  C5. When the upload of some file of the batch fails, the batch stops there: the
  draft's images are exactly as before, the files uploaded before the failing one stay
  in storage (nothing is sent after the failing upload, no removal either), the error is
  logged and an alert is raised.
\<close>

theorem uploadImages_failure:
  "files \<noteq> [] \<and> length (imgs (formData st)) < MAX_IMAGES
     \<and> (\<exists>f \<in> set (take (MAX_IMAGES - length (imgs (formData st))) files). \<not> upload_ok e f)
   \<longrightarrow> formData (fst (uploadImages e files st)) = formData st
       \<and> snd (uploadImages e files st)
           = map (StorageUpload ''images'')
               (takeWhile (upload_ok e) (take (MAX_IMAGES - length (imgs (formData st))) files)
                @ [hd (dropWhile (upload_ok e)
                         (take (MAX_IMAGES - length (imgs (formData st))) files))])
             @ [ConsoleError ''Error uploading images:'', Alert ''Error uploading images'']"
proof
  assume h: "files \<noteq> [] \<and> length (imgs (formData st)) < MAX_IMAGES
     \<and> (\<exists>f \<in> set (take (MAX_IMAGES - length (imgs (formData st))) files). \<not> upload_ok e f)"
  then have "uploadImages e files st
     = (st\<lparr>form_loading := False\<rparr>,
        map (StorageUpload ''images'')
          (takeWhile (upload_ok e) (take (MAX_IMAGES - length (imgs (formData st))) files)
           @ [hd (dropWhile (upload_ok e) (take (MAX_IMAGES - length (imgs (formData st))) files))])
        @ [ConsoleError ''Error uploading images:'', Alert ''Error uploading images''])"
    using uploadImages_some_fails [of files st e] by blast
  then show "formData (fst (uploadImages e files st)) = formData st
       \<and> snd (uploadImages e files st)
           = map (StorageUpload ''images'')
               (takeWhile (upload_ok e) (take (MAX_IMAGES - length (imgs (formData st))) files)
                @ [hd (dropWhile (upload_ok e)
                         (take (MAX_IMAGES - length (imgs (formData st))) files))])
             @ [ConsoleError ''Error uploading images:'', Alert ''Error uploading images'']"
    by simp
qed

theorem uploadImages_failure_witness:
  "formData (fst (uploadImages env_upload_fails
       [File ''a.png'', File ''b.png'', File ''c.png''] (form_of (init_formData None))))
     = init_formData None
   \<and> snd (uploadImages env_upload_fails
       [File ''a.png'', File ''b.png'', File ''c.png''] (form_of (init_formData None)))
     = [StorageUpload ''images'' (File ''a.png''), StorageUpload ''images'' (File ''b.png''),
        ConsoleError ''Error uploading images:'', Alert ''Error uploading images'']"
proof -
  let ?files = "[File ''a.png'', File ''b.png'', File ''c.png'']"
  let ?st = "form_of (init_formData None)"
  have n: "imgs (formData ?st) = []"
    by (simp add: form_of_def init_formData_def imgs_def)
  have ok: "upload_ok env_upload_fails (File ''a.png'')"
    "\<not> upload_ok env_upload_fails (File ''b.png'')"
    by (simp_all add: upload_ok_def env_upload_fails_def env_ok_def upload_not_b_def)
  have h: "?files \<noteq> [] \<and> length (imgs (formData ?st)) < MAX_IMAGES
     \<and> (\<exists>f \<in> set (take (MAX_IMAGES - length (imgs (formData ?st))) ?files).
           \<not> upload_ok env_upload_fails f)"
    using ok by (simp add: n MAX_IMAGES_def)
  have t: "take (MAX_IMAGES - length (imgs (formData ?st))) ?files = ?files"
    by (simp add: n MAX_IMAGES_def)
  have "formData (fst (uploadImages env_upload_fails ?files ?st)) = formData ?st
       \<and> snd (uploadImages env_upload_fails ?files ?st)
           = map (StorageUpload ''images'')
               (takeWhile (upload_ok env_upload_fails) ?files
                @ [hd (dropWhile (upload_ok env_upload_fails) ?files)])
             @ [ConsoleError ''Error uploading images:'', Alert ''Error uploading images'']"
    using h uploadImages_failure [of ?files ?st env_upload_fails] unfolding t by blast
  then show ?thesis
    using ok by (simp add: form_of_def)
qed

end
